theory Spec2Isabelle
  imports Complex_Main "HOL-Library.Sublist"
begin

section \<open>JavaScript values\<close>

text \<open>
  The source is \<^verbatim>\<open>src/ol/source/TileArcGISRest.js\<close>. Its parameter objects hold scalars
  (\<^verbatim>\<open>Object.<string,*>\<close>): strings, numbers, booleans, and the two empty values.

  A number is a double: a finite one is the rational it stands for (the two zeros are
  one value, no operation of the source tells them apart), the others are the two
  infinities and \<^verbatim>\<open>NaN\<close>. \<^verbatim>\<open>Math.round\<close> is exact on a double and is defined here. The
  product of two doubles is rounded to a double again, so it is no function of the
  exact product alone: it is a parameter of the model, with the other operations of the
  language that depend on the digits of a double.
\<close>

datatype jsnum = Fin rat | NaN | PosInfinity | NegInfinity

datatype jsval = JUndefined | JNull | JBool bool | JNum jsnum | JStr string

datatype error = TypeError

text \<open>
  \<^verbatim>\<open>Math.round\<close>: the nearest integer, a tie goes up; an infinity and \<^verbatim>\<open>NaN\<close> stay.
\<close>

fun mathRound :: "jsnum \<Rightarrow> jsnum" where
  "mathRound (Fin q) = Fin (of_int \<lfloor>q + 1 / 2\<rfloor>)"
| "mathRound NaN = NaN"
| "mathRound PosInfinity = PosInfinity"
| "mathRound NegInfinity = NegInfinity"

text \<open>The truth value of a scalar, as the conditional operator \<^verbatim>\<open>c ? a : b\<close> reads it.\<close>

fun truthy :: "jsval \<Rightarrow> bool" where
  "truthy JUndefined = False"
| "truthy JNull = False"
| "truthy (JBool b) = b"
| "truthy (JNum (Fin q)) = (q \<noteq> 0)"
| "truthy (JNum NaN) = False"
| "truthy (JNum PosInfinity) = True"
| "truthy (JNum NegInfinity) = True"
| "truthy (JStr s) = (s \<noteq> [])"

subsection \<open>Objects: string keys in enumeration order\<close>

text \<open>
  An object is the list of its own properties in the order \<^verbatim>\<open>for (key in o)\<close> and
  \<^verbatim>\<open>Object.keys(o)\<close> visit them: the array indices in ascending order first, then the
  other keys in the order of their creation.
\<close>

type_synonym object = "(string \<times> jsval) list"

definition objKeys :: "object \<Rightarrow> string list" where
  "objKeys ps = map fst ps"

text \<open>\<^verbatim>\<open>o[k]\<close>: a missing property reads as \<^verbatim>\<open>undefined\<close>.\<close>

definition objGet :: "object \<Rightarrow> string \<Rightarrow> jsval" where
  "objGet ps k = (case map_of ps k of None \<Rightarrow> JUndefined | Some v \<Rightarrow> v)"

definition isDigit :: "char \<Rightarrow> bool" where
  "isDigit c = (48 \<le> (of_char c :: int) \<and> (of_char c :: int) \<le> 57)"

definition digitsValue :: "string \<Rightarrow> int" where
  "digitsValue s = foldl (\<lambda>n c. 10 * n + ((of_char c :: int) - 48)) 0 s"

text \<open>
  A key is an array index when it is the canonical decimal form of a number below
  \<open>2^32 - 1\<close>.
\<close>

definition arrayIndex :: "string \<Rightarrow> int option" where
  "arrayIndex s =
     (if s \<noteq> [] \<and> list_all isDigit s \<and> (hd s \<noteq> CHR ''0'' \<or> length s = 1)
         \<and> digitsValue s < 4294967295
      then Some (digitsValue s) else None)"

fun objReplace :: "object \<Rightarrow> string \<Rightarrow> jsval \<Rightarrow> object" where
  "objReplace [] k v = []"
| "objReplace ((k', v') # ps) k v =
     (if k' = k then (k, v) # ps else (k', v') # objReplace ps k v)"

fun objInsertIndex :: "int \<Rightarrow> string \<Rightarrow> jsval \<Rightarrow> object \<Rightarrow> object" where
  "objInsertIndex n k v [] = [(k, v)]"
| "objInsertIndex n k v ((k', v') # ps) =
     (case arrayIndex k' of
        Some m \<Rightarrow> (if m < n then (k', v') # objInsertIndex n k v ps
                   else (k, v) # (k', v') # ps)
      | None \<Rightarrow> (k, v) # (k', v') # ps)"

text \<open>
  \<^verbatim>\<open>o[k] = v\<close>: an existing property keeps its place; a new one goes among the array
  indices when its key is one, and to the end otherwise.
\<close>

definition objSet :: "object \<Rightarrow> string \<Rightarrow> jsval \<Rightarrow> object" where
  "objSet ps k v =
     (if k \<in> set (objKeys ps) then objReplace ps k v
      else (case arrayIndex k of
              None \<Rightarrow> ps @ [(k, v)]
            | Some n \<Rightarrow> objInsertIndex n k v ps))"

text \<open>
  Modelled from the spec: \<^verbatim>\<open>assign\<close> (\<^verbatim>\<open>ol/obj.js\<close>) is not under \<^verbatim>\<open>src/\<close>. Section 4.1:
  a shallow overwrite, each key of the source object replaces the corresponding key of
  the target, keys of the target absent from the source are retained. Only the target
  changes.
\<close>

definition assign :: "object \<Rightarrow> object \<Rightarrow> object" where
  "assign target source =
     foldl (\<lambda>t k. objSet t k (objGet source k)) target (objKeys source)"

subsection \<open>Arrays and strings\<close>

text \<open>
  \<^verbatim>\<open>a[i] = v\<close> on an array: inside it replaces the element, at or beyond the end the
  array grows and the gap reads as \<^verbatim>\<open>undefined\<close>.
\<close>

definition arraySet :: "jsval list \<Rightarrow> nat \<Rightarrow> jsval \<Rightarrow> jsval list" where
  "arraySet xs i v =
     (if i < length xs then xs[i := v]
      else xs @ replicate (i - length xs) JUndefined @ [v])"

text \<open>\<^verbatim>\<open>a[i]\<close> with a computed index: \<^verbatim>\<open>undefined\<close> (here \<open>None\<close>) outside the array.\<close>

definition arrayGet :: "'a list \<Rightarrow> int option \<Rightarrow> 'a option" where
  "arrayGet xs i =
     (case i of
        None \<Rightarrow> None
      | Some j \<Rightarrow> (if 0 \<le> j \<and> j < int (length xs) then Some (xs ! nat j) else None))"

fun joinStrings :: "string \<Rightarrow> string list \<Rightarrow> string" where
  "joinStrings sep [] = []"
| "joinStrings sep [x] = x"
| "joinStrings sep (x # y # ys) = x @ sep @ joinStrings sep (y # ys)"

text \<open>\<^verbatim>\<open>s.split(c)\<close> with a one-character separator: never the empty array.\<close>

fun split :: "char \<Rightarrow> string \<Rightarrow> string list" where
  "split c [] = [[]]"
| "split c (x # xs) =
     (if x = c then [] # split c xs
      else (case split c xs of [] \<Rightarrow> [[x]] | w # ws \<Rightarrow> (x # w) # ws))"

text \<open>\<^verbatim>\<open>a.pop()\<close>, the value only: the last element, \<^verbatim>\<open>undefined\<close> on the empty array.\<close>

definition pop :: "string list \<Rightarrow> jsval" where
  "pop xs = (if xs = [] then JUndefined else JStr (last xs))"

text \<open>
  \<^verbatim>\<open>url.replace(/NAME\/?$/, repl)\<close> for a literal \<^verbatim>\<open>NAME\<close>: the pattern matches the name
  at the end of the string, with one optional slash after it, and nowhere else; the
  match is replaced.
\<close>

definition replaceAtEnd :: "string \<Rightarrow> string \<Rightarrow> string \<Rightarrow> string" where
  "replaceAtEnd name repl url =
     (if suffix (name @ ''/'') url then take (length url - (length name + 1)) url @ repl
      else if suffix name url then take (length url - length name) url @ repl
      else url)"

section \<open>Collaborators\<close>

type_synonym tilecoord = "int \<times> int \<times> int"
type_synonym size = "jsnum \<times> jsnum"
type_synonym extent = "jsnum \<times> jsnum \<times> jsnum \<times> jsnum"

text \<open>A tile size of a grid is one number (a square) or a pair (\<^verbatim>\<open>number|Size\<close>).\<close>

datatype sizelike = SizeNumber jsnum | SizePair jsnum jsnum

record projection =
  getCode :: string

text \<open>
  Modelled from the spec: the tile grid (\<^verbatim>\<open>ol/tilegrid/TileGrid.js\<close>) is not under
  \<^verbatim>\<open>src/\<close>. Section 3: it provides the resolutions (one per zoom level), the tile size of
  a zoom level and the extent of a tile coordinate. Section 4.1, step 3: the extent is
  computed from the coordinate and written into the scratch buffer handed in, which is
  returned.
\<close>

record tilegrid =
  getResolutions :: "jsnum list"
  getTileSize :: "int \<Rightarrow> sizelike"
  getTileCoordExtent :: "tilecoord \<Rightarrow> extent"

text \<open>
  What the source takes from outside is a parameter of the model: the conversions
  between numbers and strings of the language and its product \<^verbatim>\<open>a * b\<close> of two numbers
  (they depend on the digits of a double; the product is the exact product rounded to
  a double), and the helpers \<^verbatim>\<open>hash\<close> (\<^verbatim>\<open>ol/tilecoord.js\<close>), \<^verbatim>\<open>scale\<close>
  (\<^verbatim>\<open>ol/size.js\<close>), \<^verbatim>\<open>appendParams\<close> (\<^verbatim>\<open>ol/uri.js\<close>) and the inherited method
  \<^verbatim>\<open>getTileGridForProjection\<close>, none of which is under \<^verbatim>\<open>src/\<close>. Each is a function
  of the values of its arguments.
\<close>

record env =
  numberToString :: "rat \<Rightarrow> string"
  stringToNumber :: "string \<Rightarrow> jsnum"
  numberTimes :: "jsnum \<Rightarrow> jsnum \<Rightarrow> jsnum"
  tileCoordHash :: "tilecoord \<Rightarrow> int"
  scaleSize :: "size \<Rightarrow> jsnum \<Rightarrow> size"
  appendParams :: "string \<Rightarrow> object \<Rightarrow> string"
  getTileGridForProjection :: "projection \<Rightarrow> tilegrid"

fun numToString :: "env \<Rightarrow> jsnum \<Rightarrow> string" where
  "numToString e (Fin q) = numberToString e q"
| "numToString e NaN = ''NaN''"
| "numToString e PosInfinity = ''Infinity''"
| "numToString e NegInfinity = ''-Infinity''"

text \<open>The conversion of a scalar to a string, as \<^verbatim>\<open>'' + v\<close> does it.\<close>

fun toString :: "env \<Rightarrow> jsval \<Rightarrow> string" where
  "toString e JUndefined = ''undefined''"
| "toString e JNull = ''null''"
| "toString e (JBool b) = (if b then ''true'' else ''false'')"
| "toString e (JNum n) = numToString e n"
| "toString e (JStr s) = s"

text \<open>The conversion of a scalar to a number, as \<^verbatim>\<open>v * x\<close> does it.\<close>

fun toNumber :: "env \<Rightarrow> jsval \<Rightarrow> jsnum" where
  "toNumber e JUndefined = NaN"
| "toNumber e JNull = Fin 0"
| "toNumber e (JBool b) = Fin (if b then 1 else 0)"
| "toNumber e (JNum n) = n"
| "toNumber e (JStr s) = stringToNumber e s"

text \<open>\<^verbatim>\<open>a.join(sep)\<close>: the empty values of the array give the empty string.\<close>

definition arrayJoin :: "env \<Rightarrow> string \<Rightarrow> jsval list \<Rightarrow> string" where
  "arrayJoin e sep xs =
     joinStrings sep
       (map (\<lambda>v. case v of JUndefined \<Rightarrow> [] | JNull \<Rightarrow> [] | _ \<Rightarrow> toString e v) xs)"

text \<open>
  Modelled from the spec: \<^verbatim>\<open>modulo\<close> (\<^verbatim>\<open>ol/math.js\<close>) is not under \<^verbatim>\<open>src/\<close>. Section 4.1,
  step 7: \<open>index = hash(tileCoordinate) mod urlCount\<close>, an index into the list. The
  remainder by zero is no index (\<^verbatim>\<open>NaN\<close> in the language): \<open>None\<close>.
\<close>

definition modulo :: "int \<Rightarrow> int \<Rightarrow> int option" where
  "modulo a b = (if b = 0 then None else Some (a mod b))"

text \<open>
  Modelled from the spec: \<^verbatim>\<open>toSize\<close> (\<^verbatim>\<open>ol/size.js\<close>) is not under \<^verbatim>\<open>src/\<close>. Section 4.1,
  step 4: the tile size in pixels, a width and a height, from the tile size of the grid.
  The source hands it the grid's size and the scratch array \<^verbatim>\<open>tmpSize\<close>: a pair is
  returned as it is; one number is the side of a square, built in the scratch array.
  The result comes with the new content of the scratch array.
\<close>

fun toSize :: "sizelike \<Rightarrow> size \<Rightarrow> size \<times> size" where
  "toSize (SizePair w h) tmp = ((w, h), tmp)"
| "toSize (SizeNumber n) tmp = ((n, n), (n, n))"

section \<open>The tile source\<close>

text \<open>
  Parameter objects are shared and changed in place, so they live in a store: an
  address is a number, \<open>nextAddr\<close> is the first address never handed out.
\<close>

type_synonym addr = nat

record heap =
  objs :: "addr \<Rightarrow> object"
  nextAddr :: addr

definition alloc :: "heap \<Rightarrow> object \<Rightarrow> addr \<times> heap" where
  "alloc h ob = (nextAddr h, h\<lparr>objs := (objs h)(nextAddr h := ob), nextAddr := Suc (nextAddr h)\<rparr>)"

definition setProp :: "heap \<Rightarrow> addr \<Rightarrow> string \<Rightarrow> jsval \<Rightarrow> heap" where
  "setProp h a k v = h\<lparr>objs := (objs h)(a := objSet (objs h a) k v)\<rparr>"

definition getProp :: "heap \<Rightarrow> addr \<Rightarrow> string \<Rightarrow> jsval" where
  "getProp h a k = objGet (objs h a) k"

text \<open>
  The fields of a \<^verbatim>\<open>TileArcGISRest\<close> that the source reads or writes: \<^verbatim>\<open>urls\<close> (\<^verbatim>\<open>null\<close>
  is \<open>None\<close>), \<^verbatim>\<open>tileGrid\<close>, the address of \<^verbatim>\<open>params_\<close>, the two scratch arrays and the
  key that \<^verbatim>\<open>setKey\<close> stores. The underscore that ends the name of a private member is
  written as a prime: \<open>params'\<close>, \<open>tmpExtent'\<close>, \<open>getKeyForParams'\<close>, \<open>getRequestUrl'\<close>.
\<close>

record source =
  urls :: "string list option"
  tileGrid :: "tilegrid option"
  params' :: addr
  tmpExtent' :: extent
  tmpSize :: size
  key :: string

type_synonym state = "heap \<times> source"

text \<open>
  Modelled from the spec: \<^verbatim>\<open>setKey\<close> (\<^verbatim>\<open>ol/source/Tile.js\<close>) is not under \<^verbatim>\<open>src/\<close>.
  Section 4.1: the cache key is a field of the builder, set anew after each change of the
  parameters.
\<close>

definition setKey :: "source \<Rightarrow> string \<Rightarrow> source" where
  "setKey s k = s\<lparr>key := k\<rparr>"

subsection \<open>The cache key\<close>

text \<open>
  \<^verbatim>\<open>getKeyForParams_\<close>: the loop \<^verbatim>\<open>for (const key in this.params_) res[i++] = key + '-' +
  this.params_[key]\<close>, over the keys left to visit, with the counter and the array.
\<close>

fun keyLoop :: "env \<Rightarrow> object \<Rightarrow> string list \<Rightarrow> nat \<Rightarrow> jsval list \<Rightarrow> jsval list" where
  "keyLoop e ps [] i res = res"
| "keyLoop e ps (k # ks) i res =
     keyLoop e ps ks (Suc i) (arraySet res i (JStr (k @ ''-'' @ toString e (objGet ps k))))"

definition getKeyForParams' :: "env \<Rightarrow> state \<Rightarrow> string" where
  "getKeyForParams' e st =
     (let ps = objs (fst st) (params' (snd st))
      in arrayJoin e ''/'' (keyLoop e ps (objKeys ps) 0 []))"

definition getParams :: "state \<Rightarrow> addr" where
  "getParams st = params' (snd st)"

text \<open>
  \<^verbatim>\<open>updateParams(params)\<close>: the argument is read only, so it is passed as the content of
  the object; the stored object changes in place.
\<close>

definition updateParams :: "env \<Rightarrow> object \<Rightarrow> state \<Rightarrow> state" where
  "updateParams e params st =
     (let h = fst st; s = snd st;
          h' = h\<lparr>objs := (objs h)(params' s := assign (objs h (params' s)) params)\<rparr>
      in (h', setKey s (getKeyForParams' e (h', s))))"

subsection \<open>The request URL\<close>

definition extentArray :: "extent \<Rightarrow> jsval list" where
  "extentArray x = (case x of (a, b, c, d) \<Rightarrow> [JNum a, JNum b, JNum c, JNum d])"

text \<open>The constant \<^verbatim>\<open>modifiedUrl\<close> of \<^verbatim>\<open>getRequestUrl_\<close>, the two replacements in a row.\<close>

definition modifiedUrl :: "string \<Rightarrow> string" where
  "modifiedUrl url =
     replaceAtEnd ''ImageServer'' ''ImageServer/exportImage''
       (replaceAtEnd ''MapServer'' ''MapServer/export'' url)"

text \<open>
  \<^verbatim>\<open>getRequestUrl_\<close> writes the five keys into the object \<open>params\<close> it is given, so it
  returns the store with its result: \<open>Inr None\<close> is \<^verbatim>\<open>undefined\<close>, \<open>Inr (Some u)\<close> a
  URL, \<open>Inl TypeError\<close> the exception of \<^verbatim>\<open>url.replace\<close> when \<^verbatim>\<open>url\<close> is \<^verbatim>\<open>undefined\<close>.
\<close>

definition getRequestUrl' ::
  "env \<Rightarrow> heap \<Rightarrow> source \<Rightarrow> tilecoord \<Rightarrow> size \<Rightarrow> extent \<Rightarrow> jsnum \<Rightarrow> projection \<Rightarrow> addr
     \<Rightarrow> (error + string option) \<times> heap" where
  "getRequestUrl' e h s tileCoord tileSize tileExtent pixelRatio proj params =
     (case urls s of
        None \<Rightarrow> (Inr None, h)
      | Some us \<Rightarrow>
          (let srid = pop (split CHR '':'' (getCode proj));
               h1 = setProp h params ''SIZE''
                      (JStr (numToString e (fst tileSize) @ '','' @ numToString e (snd tileSize)));
               h2 = setProp h1 params ''BBOX'' (JStr (arrayJoin e '','' (extentArray tileExtent)));
               h3 = setProp h2 params ''BBOXSR'' srid;
               h4 = setProp h3 params ''IMAGESR'' srid;
               h5 = setProp h4 params ''DPI''
                      (JNum (mathRound
                         (if truthy (getProp h4 params ''DPI'')
                          then numberTimes e (toNumber e (getProp h4 params ''DPI'')) pixelRatio
                          else numberTimes e (Fin 90) pixelRatio)));
               url = (if length us = 1 then arrayGet us (Some 0)
                      else arrayGet us (modulo (tileCoordHash e tileCoord) (int (length us))))
           in case url of
                None \<Rightarrow> (Inl TypeError, h5)
              | Some u \<Rightarrow> (Inr (Some (appendParams e (modifiedUrl u) (objs h5 params))), h5)))"

definition getTilePixelRatio :: "jsnum \<Rightarrow> jsnum" where
  "getTilePixelRatio pixelRatio = pixelRatio"

text \<open>The object literal of \<^verbatim>\<open>fixedTileUrlFunction\<close>.\<close>

definition defaultParams :: object where
  "defaultParams =
     [(''F'', JStr ''image''), (''FORMAT'', JStr ''PNG32''), (''TRANSPARENT'', JBool True)]"

text \<open>
  The first lines of \<^verbatim>\<open>fixedTileUrlFunction\<close>: the grid of the source, or the grid of the
  projection when the source has none.
\<close>

definition activeGrid :: "env \<Rightarrow> source \<Rightarrow> projection \<Rightarrow> tilegrid" where
  "activeGrid e s proj =
     (case tileGrid s of None \<Rightarrow> getTileGridForProjection e proj | Some g \<Rightarrow> g)"

text \<open>
  \<^verbatim>\<open>fixedTileUrlFunction\<close>: the extent goes into \<^verbatim>\<open>tmpExtent_\<close>, the size through
  \<^verbatim>\<open>tmpSize\<close> (\<^verbatim>\<open>scale\<close> writes its result there and returns it), \<^verbatim>\<open>baseParams\<close> is a
  new object. The result comes with the store and the source after the call.
\<close>

definition fixedTileUrlFunction ::
  "env \<Rightarrow> state \<Rightarrow> tilecoord \<Rightarrow> jsnum \<Rightarrow> projection \<Rightarrow> (error + string option) \<times> state" where
  "fixedTileUrlFunction e st tileCoord pixelRatio proj =
     (let h = fst st; s = snd st;
          grid = activeGrid e s proj
      in if int (length (getResolutions grid)) \<le> fst tileCoord then (Inr None, st)
         else
          (let tileExtent = getTileCoordExtent grid tileCoord;
               s1 = s\<lparr>tmpExtent' := tileExtent\<rparr>;
               sized = toSize (getTileSize grid (fst tileCoord)) (tmpSize s1);
               s2 = s1\<lparr>tmpSize := snd sized\<rparr>;
               tileSize = (if pixelRatio \<noteq> Fin 1 then scaleSize e (fst sized) pixelRatio
                           else fst sized);
               s3 = (if pixelRatio \<noteq> Fin 1 then s2\<lparr>tmpSize := tileSize\<rparr> else s2);
               fresh = alloc h defaultParams;
               baseParams = fst fresh;
               h1 = snd fresh;
               h2 = h1\<lparr>objs := (objs h1)
                      (baseParams := assign (objs h1 baseParams) (objs h1 (params' s3)))\<rparr>;
               built = getRequestUrl' e h2 s3 tileCoord tileSize tileExtent pixelRatio proj
                         baseParams
           in (fst built, (snd built, s3))))"

text \<open>A run of calls of \<^verbatim>\<open>fixedTileUrlFunction\<close> on one source, the results dropped.\<close>

fun builds :: "env \<Rightarrow> (tilecoord \<times> jsnum \<times> projection) list \<Rightarrow> state \<Rightarrow> state" where
  "builds e [] st = st"
| "builds e ((tc, pr, proj) # cs) st = builds e cs (snd (fixedTileUrlFunction e st tc pr proj))"

section \<open>Notions of the statements\<close>

text \<open>
  The content of the object \<open>params\<close> after the five assignments of \<^verbatim>\<open>getRequestUrl_\<close>,
  from its content before them.
\<close>

definition requestParams ::
  "env \<Rightarrow> object \<Rightarrow> size \<Rightarrow> extent \<Rightarrow> jsnum \<Rightarrow> projection \<Rightarrow> object" where
  "requestParams e p0 tileSize tileExtent pixelRatio proj =
     (let srid = pop (split CHR '':'' (getCode proj));
          p1 = objSet p0 ''SIZE''
                 (JStr (numToString e (fst tileSize) @ '','' @ numToString e (snd tileSize)));
          p2 = objSet p1 ''BBOX'' (JStr (arrayJoin e '','' (extentArray tileExtent)));
          p3 = objSet p2 ''BBOXSR'' srid;
          p4 = objSet p3 ''IMAGESR'' srid
      in objSet p4 ''DPI''
           (JNum (mathRound
              (if truthy (objGet p4 ''DPI'')
               then numberTimes e (toNumber e (objGet p4 ''DPI'')) pixelRatio
               else numberTimes e (Fin 90) pixelRatio))))"

text \<open>The value of the variable \<^verbatim>\<open>url\<close> of \<^verbatim>\<open>getRequestUrl_\<close>.\<close>

definition selectUrl :: "env \<Rightarrow> string list \<Rightarrow> tilecoord \<Rightarrow> string option" where
  "selectUrl e us tileCoord =
     (if length us = 1 then arrayGet us (Some 0)
      else arrayGet us (modulo (tileCoordHash e tileCoord) (int (length us))))"

text \<open>The value of the variable \<^verbatim>\<open>tileSize\<close> that \<^verbatim>\<open>fixedTileUrlFunction\<close> passes on.\<close>

definition scaledSize :: "env \<Rightarrow> tilegrid \<Rightarrow> source \<Rightarrow> int \<Rightarrow> jsnum \<Rightarrow> size" where
  "scaledSize e g s z pixelRatio =
     (if pixelRatio \<noteq> Fin 1
      then scaleSize e (fst (toSize (getTileSize g z) (tmpSize s))) pixelRatio
      else fst (toSize (getTileSize g z) (tmpSize s)))"

text \<open>The entries of a parameter set, in the order of its keys.\<close>

definition objEntries :: "object \<Rightarrow> (string \<times> jsval) list" where
  "objEntries ps = map (\<lambda>k. (k, objGet ps k)) (objKeys ps)"

text \<open>
  The cache key in the words of the spec (section 4.1, \<open>computeCacheKey\<close>): each entry
  formatted as \<^verbatim>\<open>{key}-{value}\<close>, the entries joined with \<^verbatim>\<open>/\<close>.
\<close>

definition computeCacheKey :: "env \<Rightarrow> object \<Rightarrow> string" where
  "computeCacheKey e ps =
     joinStrings ''/'' (map (\<lambda>kv. fst kv @ ''-'' @ toString e (snd kv)) (objEntries ps))"



text \<open>Calls on one source in any order: builds of a URL and updates of the parameters.\<close>

datatype call = Build tilecoord jsnum projection | Update object

fun run :: "env \<Rightarrow> call list \<Rightarrow> state \<Rightarrow> state" where
  "run e [] st = st"
| "run e (Build tc pr proj # cs) st = run e cs (snd (fixedTileUrlFunction e st tc pr proj))"
| "run e (Update u # cs) st = run e cs (updateParams e u st)"

section \<open>A sample environment\<close>

text \<open>
  The examples run the model on a concrete environment. All their numbers are integers
  below \<open>10^21\<close>, which the language prints in decimal; the sample conversion prints the
  integer part of a number. A string of digits reads as its value, the empty string as
  zero, any other string as \<^verbatim>\<open>NaN\<close>.
\<close>

function decimal :: "nat \<Rightarrow> string" where
  "decimal n =
     (if n < 10 then [char_of (48 + n)] else decimal (n div 10) @ [char_of (48 + n mod 10)])"
  by pat_completeness auto
termination
  by (relation "measure id") auto

declare decimal.simps [simp del]

definition sampleNumberToString :: "rat \<Rightarrow> string" where
  "sampleNumberToString q =
     (if \<lfloor>q\<rfloor> < 0 then ''-'' @ decimal (nat (- \<lfloor>q\<rfloor>)) else decimal (nat \<lfloor>q\<rfloor>))"

text \<open>
  The sample product is the exact one. It is the product of the language wherever the
  exact product is a double, as it is for the integers of the examples.
\<close>

fun sampleTimes :: "jsnum \<Rightarrow> jsnum \<Rightarrow> jsnum" where
  "sampleTimes (Fin a) (Fin b) = Fin (a * b)"
| "sampleTimes NaN b = NaN"
| "sampleTimes a NaN = NaN"
| "sampleTimes (Fin a) PosInfinity =
     (if a = 0 then NaN else if 0 < a then PosInfinity else NegInfinity)"
| "sampleTimes (Fin a) NegInfinity =
     (if a = 0 then NaN else if 0 < a then NegInfinity else PosInfinity)"
| "sampleTimes PosInfinity (Fin b) =
     (if b = 0 then NaN else if 0 < b then PosInfinity else NegInfinity)"
| "sampleTimes NegInfinity (Fin b) =
     (if b = 0 then NaN else if 0 < b then NegInfinity else PosInfinity)"
| "sampleTimes PosInfinity PosInfinity = PosInfinity"
| "sampleTimes PosInfinity NegInfinity = NegInfinity"
| "sampleTimes NegInfinity PosInfinity = NegInfinity"
| "sampleTimes NegInfinity NegInfinity = PosInfinity"

text \<open>
  Where the exact product is no double the language rounds it: 90 times the double
  nearest to 1.45, which is \<open>6530219459687219 / 2^52\<close>, is the double 130.5, while the
  exact product lies just below it. A second sample product has that rounded value.
\<close>

definition sampleRatio :: jsnum where
  "sampleRatio = Fin (6530219459687219 / 4503599627370496)"

definition sampleTimesRounded :: "jsnum \<Rightarrow> jsnum \<Rightarrow> jsnum" where
  "sampleTimesRounded a b =
     (if a = Fin 90 \<and> b = sampleRatio then Fin (261 / 2) else sampleTimes a b)"

definition sampleStringToNumber :: "string \<Rightarrow> jsnum" where
  "sampleStringToNumber s =
     (if s = [] then Fin 0
      else if list_all isDigit s then Fin (of_int (digitsValue s))
      else NaN)"

text \<open>
  Modelled from the spec: \<^verbatim>\<open>hash\<close> (\<^verbatim>\<open>ol/tilecoord.js\<close>) is not under \<^verbatim>\<open>src/\<close>. Section 9:
  any stable integer hash of the three components serves; the sample shifts the column
  by the zoom level and adds the row.
\<close>

definition sampleHash :: "tilecoord \<Rightarrow> int" where
  "sampleHash tc = (case tc of (z, x, y) \<Rightarrow> x * 2 ^ nat z + y)"

text \<open>
  Modelled from the spec: \<^verbatim>\<open>scale\<close> (\<^verbatim>\<open>ol/size.js\<close>) is not under \<^verbatim>\<open>src/\<close>. Section 4.1,
  step 4: both dimensions are scaled by the pixel ratio.
\<close>

definition sampleScaleSize :: "size \<Rightarrow> jsnum \<Rightarrow> size" where
  "sampleScaleSize sz ratio = (sampleTimes (fst sz) ratio, sampleTimes (snd sz) ratio)"

definition unreserved :: "char \<Rightarrow> bool" where
  "unreserved c =
     (let n = (of_char c :: nat)
      in (48 \<le> n \<and> n \<le> 57) \<or> (65 \<le> n \<and> n \<le> 90) \<or> (97 \<le> n \<and> n \<le> 122)
         \<or> n \<in> {45, 95, 46, 33, 126, 42, 39, 40, 41})"

definition hexDigit :: "nat \<Rightarrow> char" where
  "hexDigit n = (if n < 10 then char_of (48 + n) else char_of (55 + n))"

text \<open>
  \<^verbatim>\<open>encodeURIComponent\<close> on a string of bytes: letters, digits and \<^verbatim>\<open>-_.!~*'()\<close> stay,
  any other byte becomes \<^verbatim>\<open>%XX\<close>.
\<close>

definition encodeURIComponent :: "string \<Rightarrow> string" where
  "encodeURIComponent s =
     concat (map (\<lambda>c. if unreserved c then [c]
                       else [CHR ''%'', hexDigit ((of_char c :: nat) div 16),
                             hexDigit ((of_char c :: nat) mod 16)]) s)"

text \<open>
  Modelled from the spec: \<^verbatim>\<open>appendParams\<close> (\<^verbatim>\<open>ol/uri.js\<close>) is not under \<^verbatim>\<open>src/\<close>.
  Section 4.1, step 9: all parameters are appended as a query string, each value
  URL-encoded, numbers and booleans in their canonical string form; a URL that has a
  query string already gets the parameters after \<^verbatim>\<open>&\<close>, not a second \<^verbatim>\<open>?\<close>.
\<close>

definition sampleAppendParams :: "(jsval \<Rightarrow> string) \<Rightarrow> string \<Rightarrow> object \<Rightarrow> string" where
  "sampleAppendParams str uri params =
     uri @ (if CHR ''?'' \<in> set uri then ''&'' else ''?'')
         @ joinStrings ''&'' (map (\<lambda>kv. fst kv @ ''='' @ encodeURIComponent (str (snd kv))) params)"

definition sampleGrid :: tilegrid where
  "sampleGrid =
     \<lparr>getResolutions = [Fin 2, Fin 1],
      getTileSize = (\<lambda>z. SizeNumber (Fin 256)),
      getTileCoordExtent = (\<lambda>tc. (Fin 0, Fin 0, Fin 100, Fin 100))\<rparr>"

definition sampleStr :: "jsval \<Rightarrow> string" where
  "sampleStr v =
     (case v of
        JUndefined \<Rightarrow> ''undefined''
      | JNull \<Rightarrow> ''null''
      | JBool b \<Rightarrow> (if b then ''true'' else ''false'')
      | JNum (Fin q) \<Rightarrow> sampleNumberToString q
      | JNum NaN \<Rightarrow> ''NaN''
      | JNum PosInfinity \<Rightarrow> ''Infinity''
      | JNum NegInfinity \<Rightarrow> ''-Infinity''
      | JStr s \<Rightarrow> s)"

definition sampleEnv :: env where
  "sampleEnv =
     \<lparr>numberToString = sampleNumberToString,
      stringToNumber = sampleStringToNumber,
      numberTimes = sampleTimes,
      tileCoordHash = sampleHash,
      scaleSize = sampleScaleSize,
      appendParams = sampleAppendParams sampleStr,
      getTileGridForProjection = (\<lambda>p. sampleGrid)\<rparr>"

definition sampleEnvRounded :: env where
  "sampleEnvRounded = sampleEnv\<lparr>numberTimes := sampleTimesRounded\<rparr>"

text \<open>A store with one object, at address 0, and a source whose parameters it holds.\<close>

definition sampleHeap :: "object \<Rightarrow> heap" where
  "sampleHeap ps = \<lparr>objs = (\<lambda>a. [])(0 := ps), nextAddr = 1\<rparr>"

definition sampleSource :: "string list option \<Rightarrow> source" where
  "sampleSource us =
     \<lparr>urls = us, tileGrid = None, params' = 0,
      tmpExtent' = (Fin 0, Fin 0, Fin 0, Fin 0), tmpSize = (Fin 0, Fin 0), key = []\<rparr>"

definition sampleProjection :: projection where
  "sampleProjection = \<lparr>getCode = ''EPSG:3857''\<rparr>"

definition sampleUrl :: string where
  "sampleUrl = ''https://host/arcgis/rest/services/X/MapServer''"

section \<open>Properties of objects\<close>


lemma map_of_objReplace:
  "map_of (objReplace ps k v) k' =
     (if k' = k \<and> map_of ps k \<noteq> None then Some v else map_of ps k')"
  by (induction ps k v rule: objReplace.induct) auto

lemma map_of_objInsertIndex:
  "k \<notin> fst ` set ps \<Longrightarrow>
     map_of (objInsertIndex n k v ps) k' = (if k' = k then Some v else map_of ps k')"
  by (induction n k v ps rule: objInsertIndex.induct) (auto split: option.splits)

lemma map_of_objAppend:
  "k \<notin> fst ` set ps \<Longrightarrow> map_of (ps @ [(k, v)]) k' = (if k' = k then Some v else map_of ps k')"
  by (induction ps) auto

lemma map_of_objSet: "map_of (objSet ps k v) k' = (if k' = k then Some v else map_of ps k')"
  by (simp add: objSet_def objKeys_def map_of_objReplace map_of_objInsertIndex map_of_objAppend
      map_of_eq_None_iff del: map_of_append split: option.splits)

lemma objGet_objSet: "objGet (objSet ps k v) k' = (if k' = k then v else objGet ps k')"
  by (simp add: objGet_def map_of_objSet)

lemma keys_objReplace: "fst ` set (objReplace ps k v) = fst ` set ps"
  by (induction ps k v rule: objReplace.induct) simp_all

lemma keys_objInsertIndex: "fst ` set (objInsertIndex n k v ps) = insert k (fst ` set ps)"
  by (induction n k v ps rule: objInsertIndex.induct)
     (simp_all add: insert_commute split: option.splits)

lemma keys_objSet: "set (objKeys (objSet ps k v)) = insert k (set (objKeys ps))"
  by (simp add: objSet_def objKeys_def keys_objReplace keys_objInsertIndex insert_absorb
      split: option.splits)

lemma objGet_foldl:
  "objGet (foldl (\<lambda>t k. objSet t k (f k)) t ks) k = (if k \<in> set ks then f k else objGet t k)"
  by (induction ks arbitrary: t) (auto simp: objGet_objSet)

lemma keys_foldl:
  "set (objKeys (foldl (\<lambda>t k. objSet t k (f k)) t ks)) = set (objKeys t) \<union> set ks"
  by (induction ks arbitrary: t) (auto simp: keys_objSet)

lemma objGet_assign:
  "objGet (assign t s) k = (if k \<in> set (objKeys s) then objGet s k else objGet t k)"
  by (simp add: assign_def objGet_foldl)

lemma keys_assign: "set (objKeys (assign t s)) = set (objKeys t) \<union> set (objKeys s)"
  by (simp add: assign_def keys_foldl)

lemma objGet_absent: "k \<notin> set (objKeys ps) \<Longrightarrow> objGet ps k = JUndefined"
  by (simp add: objGet_def objKeys_def map_of_eq_None_iff[THEN iffD2])

lemma arraySet_end: "arraySet res (length res) v = res @ [v]"
  by (simp add: arraySet_def)

lemma keyLoop_eq:
  "keyLoop e ps ks (length res) res =
     res @ map (\<lambda>k. JStr (k @ ''-'' @ toString e (objGet ps k))) ks"
proof (induction ks arbitrary: res)
  case Nil
  show ?case by simp
next
  case (Cons k ks)
  have "keyLoop e ps (k # ks) (length res) res =
        keyLoop e ps ks (length (res @ [JStr (k @ ''-'' @ toString e (objGet ps k))]))
          (res @ [JStr (k @ ''-'' @ toString e (objGet ps k))])"
    by (simp add: arraySet_end)
  also have "\<dots> = (res @ [JStr (k @ ''-'' @ toString e (objGet ps k))])
                    @ map (\<lambda>k. JStr (k @ ''-'' @ toString e (objGet ps k))) ks"
    by (rule Cons.IH)
  finally show ?case by simp
qed

lemma arrayJoin_strings: "arrayJoin e sep (map (\<lambda>x. JStr (f x)) xs) = joinStrings sep (map f xs)"
  by (simp add: arrayJoin_def comp_def)

lemma getKeyForParams_eq:
  "getKeyForParams' e st =
     joinStrings ''/'' (map (\<lambda>k. k @ ''-'' @ toString e (objGet (objs (fst st) (params' (snd st))) k))
        (objKeys (objs (fst st) (params' (snd st)))))"
  using keyLoop_eq[of e _ _ "[]"]
  by (simp add: getKeyForParams'_def Let_def arrayJoin_strings)


section \<open>Unfolding the request\<close>

lemma setProp_first:
  "setProp h a k v = h\<lparr>objs := (objs h)(a := objSet (objs h a) k v)\<rparr>"
  by (simp add: setProp_def)

lemma setProp_next:
  "setProp (h\<lparr>objs := (objs h)(a := x)\<rparr>) a k v = h\<lparr>objs := (objs h)(a := objSet x k v)\<rparr>"
  by (simp add: setProp_def)

lemma getProp_written: "getProp (h\<lparr>objs := (objs h)(a := x)\<rparr>) a k = objGet x k"
  by (simp add: getProp_def)

lemma getRequestUrl_heap:
  "setProp (setProp (setProp (setProp (setProp h a k1 v1) a k2 v2) a k3 v3) a k4 v4) a k5 v5 =
     h\<lparr>objs := (objs h)(a :=
        objSet (objSet (objSet (objSet (objSet (objs h a) k1 v1) k2 v2) k3 v3) k4 v4) k5 v5)\<rparr>"
  by (simp only: setProp_first[of h] setProp_next)

lemma getRequestUrl_dpi:
  "getProp (setProp (setProp (setProp (setProp h a k1 v1) a k2 v2) a k3 v3) a k4 v4) a k =
     objGet (objSet (objSet (objSet (objSet (objs h a) k1 v1) k2 v2) k3 v3) k4 v4) k"
  by (simp only: setProp_first[of h] setProp_next getProp_written)

lemma getRequestUrl_eq:
  assumes "urls s = Some us"
  shows "getRequestUrl' e h s tc sz ext pr proj a =
     ((case selectUrl e us tc of
         None \<Rightarrow> Inl TypeError
       | Some u \<Rightarrow> Inr (Some (appendParams e (modifiedUrl u)
                     (requestParams e (objs h a) sz ext pr proj)))),
      h\<lparr>objs := (objs h)(a := requestParams e (objs h a) sz ext pr proj)\<rparr>)"
proof -
  have "getRequestUrl' e h s tc sz ext pr proj a =
     (case selectUrl e us tc of
        None \<Rightarrow> (Inl TypeError,
                  h\<lparr>objs := (objs h)(a := requestParams e (objs h a) sz ext pr proj)\<rparr>)
      | Some u \<Rightarrow>
          (Inr (Some (appendParams e (modifiedUrl u)
             (objs (h\<lparr>objs := (objs h)(a := requestParams e (objs h a) sz ext pr proj)\<rparr>) a))),
           h\<lparr>objs := (objs h)(a := requestParams e (objs h a) sz ext pr proj)\<rparr>))"
    unfolding getRequestUrl'_def requestParams_def selectUrl_def Let_def assms option.case
      getRequestUrl_heap getRequestUrl_dpi ..
  then show ?thesis
    by (simp split: option.splits)
qed

lemma getRequestUrl_null:
  "urls s = None \<Longrightarrow> getRequestUrl' e h s tc sz ext pr proj a = (Inr None, h)"
  by (simp add: getRequestUrl'_def)

lemma fixedTileUrlFunction_eq:
  assumes "\<not> int (length (getResolutions (activeGrid e s proj))) \<le> fst tc"
    and "urls s = Some us" and "params' s \<noteq> nextAddr h"
  shows "fixedTileUrlFunction e (h, s) tc pr proj =
     ((case selectUrl e us tc of
         None \<Rightarrow> Inl TypeError
       | Some u \<Rightarrow> Inr (Some (appendParams e (modifiedUrl u)
            (requestParams e (assign defaultParams (objs h (params' s)))
               (scaledSize e (activeGrid e s proj) s (fst tc) pr)
               (getTileCoordExtent (activeGrid e s proj) tc) pr proj)))),
      (h\<lparr>objs := (objs h)(nextAddr h :=
            requestParams e (assign defaultParams (objs h (params' s)))
               (scaledSize e (activeGrid e s proj) s (fst tc) pr)
               (getTileCoordExtent (activeGrid e s proj) tc) pr proj),
          nextAddr := Suc (nextAddr h)\<rparr>,
       (if pr \<noteq> Fin 1
        then s\<lparr>tmpExtent' := getTileCoordExtent (activeGrid e s proj) tc,
               tmpSize := scaledSize e (activeGrid e s proj) s (fst tc) pr\<rparr>
        else s\<lparr>tmpExtent' := getTileCoordExtent (activeGrid e s proj) tc,
               tmpSize := snd (toSize (getTileSize (activeGrid e s proj) (fst tc)) (tmpSize s))\<rparr>)))"
  using assms
  by (simp add: fixedTileUrlFunction_def Let_def alloc_def scaledSize_def getRequestUrl_eq
      split: option.splits)

lemma fixedTileUrlFunction_null:
  assumes "\<not> int (length (getResolutions (activeGrid e s proj))) \<le> fst tc" and "urls s = None"
  shows "fst (fixedTileUrlFunction e (h, s) tc pr proj) = Inr None"
  using assms by (simp add: fixedTileUrlFunction_def Let_def getRequestUrl_null)

lemma fixedTileUrlFunction_zoom:
  assumes "int (length (getResolutions (activeGrid e s proj))) \<le> fst tc"
  shows "fixedTileUrlFunction e (h, s) tc pr proj = (Inr None, (h, s))"
  using assms by (simp add: fixedTileUrlFunction_def Let_def)

lemma objGet_requestParams:
  "objGet (requestParams e p0 sz ext pr proj) k =
     (if k = ''DPI'' then
        JNum (mathRound (if truthy (objGet p0 ''DPI'')
                         then numberTimes e (toNumber e (objGet p0 ''DPI'')) pr
                         else numberTimes e (Fin 90) pr))
      else if k = ''IMAGESR'' then pop (split CHR '':'' (getCode proj))
      else if k = ''BBOXSR'' then pop (split CHR '':'' (getCode proj))
      else if k = ''BBOX'' then JStr (arrayJoin e '','' (extentArray ext))
      else if k = ''SIZE'' then JStr (numToString e (fst sz) @ '','' @ numToString e (snd sz))
      else objGet p0 k)"
  by (simp add: requestParams_def Let_def objGet_objSet)

lemma selectUrl_nonempty:
  "us \<noteq> [] \<Longrightarrow> selectUrl e us tc =
     Some (if length us = 1 then us ! 0 else us ! nat (tileCoordHash e tc mod int (length us)))"
  by (simp add: selectUrl_def arrayGet_def modulo_def)

lemma selectUrl_empty: "selectUrl e [] tc = None"
  by (simp add: selectUrl_def arrayGet_def modulo_def)




subsection \<open>The rewrite of the base URL\<close>

lemma modifiedUrl_MapServer: "modifiedUrl (p @ ''MapServer'') = p @ ''MapServer/export''"
  by (simp add: modifiedUrl_def replaceAtEnd_def suffix_to_prefix)

lemma modifiedUrl_MapServer_slash: "modifiedUrl (p @ ''MapServer/'') = p @ ''MapServer/export''"
  by (simp add: modifiedUrl_def replaceAtEnd_def suffix_to_prefix)

lemma modifiedUrl_ImageServer: "modifiedUrl (p @ ''ImageServer'') = p @ ''ImageServer/exportImage''"
  by (simp add: modifiedUrl_def replaceAtEnd_def suffix_to_prefix)

lemma modifiedUrl_ImageServer_slash:
  "modifiedUrl (p @ ''ImageServer/'') = p @ ''ImageServer/exportImage''"
  by (simp add: modifiedUrl_def replaceAtEnd_def suffix_to_prefix)

lemma modifiedUrl_other:
  "\<not> suffix ''MapServer'' url \<Longrightarrow> \<not> suffix ''MapServer/'' url \<Longrightarrow>
   \<not> suffix ''ImageServer'' url \<Longrightarrow> \<not> suffix ''ImageServer/'' url \<Longrightarrow> modifiedUrl url = url"
  by (simp add: modifiedUrl_def replaceAtEnd_def)

subsection \<open>Splitting the projection code\<close>

lemma split_nonempty: "split c s \<noteq> []"
  by (induction s) (auto split: list.splits)

lemma split_no_separator: "c \<notin> set t \<Longrightarrow> split c t = [t]"
  by (induction t) auto

lemma split_append: "split c (p @ c # q) = split c p @ split c q"
proof (induction p)
  case Nil
  show ?case by simp
next
  case (Cons x p)
  obtain w ws where "split c p = w # ws"
    using split_nonempty[of c p] by (cases "split c p") auto
  with Cons show ?case by simp
qed

lemma pop_split: "c \<notin> set t \<Longrightarrow> pop (split c (p @ c # t)) = JStr t"
  by (simp add: pop_def split_append split_no_separator)

subsection \<open>Joined strings\<close>





subsection \<open>The cache key\<close>

lemma getKeyForParams_spec:
  "getKeyForParams' e st = computeCacheKey e (objs (fst st) (params' (snd st)))"
  by (simp add: getKeyForParams_eq computeCacheKey_def objEntries_def comp_def)




subsection \<open>What a call leaves alone\<close>

lemma fst_toSize: "fst (toSize x t) = fst (toSize x t')"
  by (cases x) simp_all

lemma snd_getRequestUrl:
  "snd (getRequestUrl' e h s tc sz ext pr proj a) =
     (case urls s of None \<Rightarrow> h
      | Some us \<Rightarrow> h\<lparr>objs := (objs h)(a := requestParams e (objs h a) sz ext pr proj)\<rparr>)"
  by (cases "urls s") (simp_all add: getRequestUrl_null getRequestUrl_eq)

lemma fixedTileUrlFunction_frame:
  assumes "fixedTileUrlFunction e (h, s) tc pr proj = (r, (h', s'))"
  shows "urls s' = urls s \<and> tileGrid s' = tileGrid s \<and> params' s' = params' s \<and> key s' = key s
         \<and> nextAddr h \<le> nextAddr h' \<and> (\<forall>a. a < nextAddr h \<longrightarrow> objs h' a = objs h a)"
proof (cases "int (length (getResolutions (activeGrid e s proj))) \<le> fst tc")
  case True
  with assms show ?thesis by (simp add: fixedTileUrlFunction_zoom)
next
  case False
  with assms show ?thesis
    by (cases "urls s")
       (auto simp: fixedTileUrlFunction_def Let_def alloc_def snd_getRequestUrl)
qed

lemma builds_frame:
  assumes "builds e cs (h, s) = (h', s')"
  shows "urls s' = urls s \<and> tileGrid s' = tileGrid s \<and> params' s' = params' s \<and> key s' = key s
         \<and> nextAddr h \<le> nextAddr h' \<and> (\<forall>a. a < nextAddr h \<longrightarrow> objs h' a = objs h a)"
  using assms
proof (induction cs arbitrary: h s)
  case Nil
  then show ?case by simp
next
  case (Cons c cs)
  obtain tc pr proj where c: "c = (tc, pr, proj)" by (cases c)
  obtain r h1 s1 where step: "fixedTileUrlFunction e (h, s) tc pr proj = (r, (h1, s1))"
    by (cases "fixedTileUrlFunction e (h, s) tc pr proj") auto
  from Cons.prems c step have rest: "builds e cs (h1, s1) = (h', s')" by simp
  from fixedTileUrlFunction_frame[OF step] Cons.IH[OF rest] show ?case
    by (auto simp: less_le_trans)
qed

lemma updateParams_frame:
  assumes "updateParams e u (h, s) = (h', s')"
  shows "urls s' = urls s \<and> tileGrid s' = tileGrid s \<and> params' s' = params' s
         \<and> nextAddr h' = nextAddr h"
  using assms by (auto simp: updateParams_def Let_def setKey_def)

lemma run_frame:
  assumes "run e cs (h, s) = (h', s')"
  shows "urls s' = urls s \<and> tileGrid s' = tileGrid s \<and> params' s' = params' s
         \<and> nextAddr h \<le> nextAddr h'"
  using assms
proof (induction cs arbitrary: h s)
  case Nil
  then show ?case by simp
next
  case (Cons c cs)
  show ?case
  proof (cases c)
    case (Build tc pr proj)
    obtain r h1 s1 where step: "fixedTileUrlFunction e (h, s) tc pr proj = (r, (h1, s1))"
      by (cases "fixedTileUrlFunction e (h, s) tc pr proj") auto
    from Cons.prems Build step have rest: "run e cs (h1, s1) = (h', s')" by simp
    from fixedTileUrlFunction_frame[OF step] Cons.IH[OF rest] show ?thesis by auto
  next
    case (Update u)
    obtain h1 s1 where step: "updateParams e u (h, s) = (h1, s1)"
      by (cases "updateParams e u (h, s)") auto
    from Cons.prems Update step have rest: "run e cs (h1, s1) = (h', s')" by simp
    from updateParams_frame[OF step] Cons.IH[OF rest] show ?thesis by auto
  qed
qed

lemma fixedTileUrlFunction_agree:
  assumes "urls s1 = urls s2" and "tileGrid s1 = tileGrid s2"
    and "objs h1 (params' s1) = objs h2 (params' s2)"
    and "params' s1 \<noteq> nextAddr h1" and "params' s2 \<noteq> nextAddr h2"
  shows "fst (fixedTileUrlFunction e (h1, s1) tc pr proj)
       = fst (fixedTileUrlFunction e (h2, s2) tc pr proj)"
proof -
  have g: "activeGrid e s1 proj = activeGrid e s2 proj"
    using assms(2) by (simp add: activeGrid_def)
  have sz: "scaledSize e g s1 z pr = scaledSize e g s2 z pr" for g z
    using fst_toSize[of _ "tmpSize s1" "tmpSize s2"] by (simp add: scaledSize_def)
  show ?thesis
  proof (cases "int (length (getResolutions (activeGrid e s1 proj))) \<le> fst tc")
    case True
    then show ?thesis using g by (simp add: fixedTileUrlFunction_zoom)
  next
    case False
    show ?thesis
    proof (cases "urls s1")
      case None
      with False g assms(1) show ?thesis by (simp add: fixedTileUrlFunction_null)
    next
      case (Some us)
      with False g assms show ?thesis
        by (simp add: fixedTileUrlFunction_eq[where us = us] sz split: option.splits)
    qed
  qed
qed


subsection \<open>A build that returns a URL\<close>


lemma built_result:
  assumes "\<not> int (length (getResolutions (activeGrid e s proj))) \<le> fst tc"
    and "urls s = Some us" and "us \<noteq> []" and "params' s < nextAddr h"
    and "fixedTileUrlFunction e (h, s) tc pr proj = (r, (h', s'))"
  shows "r = Inr (Some (appendParams e
            (modifiedUrl (if length us = 1 then us ! 0
                          else us ! nat (tileCoordHash e tc mod int (length us))))
            (objs h' (nextAddr h))))"
    and "objs h' (nextAddr h) =
           requestParams e (assign defaultParams (objs h (params' s)))
             (scaledSize e (activeGrid e s proj) s (fst tc) pr)
             (getTileCoordExtent (activeGrid e s proj) tc) pr proj"
proof -
  have ne: "params' s \<noteq> nextAddr h" using assms(4) by simp
  from fixedTileUrlFunction_eq[OF assms(1,2) ne, of pr] assms(5)
  have r: "r = (case selectUrl e us tc of
         None \<Rightarrow> Inl TypeError
       | Some u \<Rightarrow> Inr (Some (appendParams e (modifiedUrl u)
            (requestParams e (assign defaultParams (objs h (params' s)))
               (scaledSize e (activeGrid e s proj) s (fst tc) pr)
               (getTileCoordExtent (activeGrid e s proj) tc) pr proj))))"
    and h': "h' = h\<lparr>objs := (objs h)(nextAddr h :=
            requestParams e (assign defaultParams (objs h (params' s)))
               (scaledSize e (activeGrid e s proj) s (fst tc) pr)
               (getTileCoordExtent (activeGrid e s proj) tc) pr proj),
          nextAddr := Suc (nextAddr h)\<rparr>"
    by simp_all
  from h' show w: "objs h' (nextAddr h) =
           requestParams e (assign defaultParams (objs h (params' s)))
             (scaledSize e (activeGrid e s proj) s (fst tc) pr)
             (getTileCoordExtent (activeGrid e s proj) tc) pr proj"
    by simp
  from r w selectUrl_nonempty[OF assms(3), of e tc]
  show "r = Inr (Some (appendParams e
            (modifiedUrl (if length us = 1 then us ! 0
                          else us ! nat (tileCoordHash e tc mod int (length us))))
            (objs h' (nextAddr h))))"
    by simp
qed


subsection \<open>The sample environment, evaluated\<close>

lemma sample_numbers:
  "sampleNumberToString 0 = ''0''" "sampleNumberToString 100 = ''100''"
  "sampleNumberToString 256 = ''256''" "sampleNumberToString 512 = ''512''"
  "sampleNumberToString 90 = ''90''" "sampleNumberToString 96 = ''96''"
  "sampleNumberToString 180 = ''180''" "sampleNumberToString 192 = ''192''"
  by code_simp+

lemma sample_env:
  "numberToString sampleEnv = sampleNumberToString" "stringToNumber sampleEnv = sampleStringToNumber"
  "numberTimes sampleEnv = sampleTimes"
  "tileCoordHash sampleEnv = sampleHash" "scaleSize sampleEnv = sampleScaleSize"
  "appendParams sampleEnv = sampleAppendParams sampleStr"
  "getTileGridForProjection sampleEnv = (\<lambda>p. sampleGrid)"
  by (simp_all add: sampleEnv_def)

lemma sample_in_range:
  "\<not> int (length (getResolutions (activeGrid sampleEnv (sampleSource us) sampleProjection))) \<le> fst (0::int, 0::int, 0::int)"
  by (simp add: activeGrid_def sampleSource_def sampleEnv_def sampleGrid_def)

lemma sample_state:
  "urls (sampleSource us) = us" "params' (sampleSource us) = 0" "tmpSize (sampleSource us) = (Fin 0, Fin 0)"
  "tileGrid (sampleSource us) = None" "key (sampleSource us) = []"
  "nextAddr (sampleHeap ps) = 1" "objs (sampleHeap ps) 0 = ps"
  "activeGrid sampleEnv (sampleSource us) proj = sampleGrid"
  by (simp_all add: sampleSource_def sampleHeap_def activeGrid_def sampleEnv_def)

lemma sample_floors:
  "\<lfloor>361 / 2 :: rat\<rfloor> = 180" "\<lfloor>385 / 2 :: rat\<rfloor> = 192"
  "\<lfloor>181 / 2 :: rat\<rfloor> = 90" "\<lfloor>193 / 2 :: rat\<rfloor> = 96"
  by code_simp+

subsection \<open>Further facts on a build\<close>

lemma objGet_defaults_merge_DPI:
  "objGet (assign defaultParams u) ''DPI'' = objGet u ''DPI''"
proof -
  have "objGet defaultParams ''DPI'' = JUndefined"
    by (simp add: objGet_def defaultParams_def)
  then show ?thesis
    by (simp add: objGet_assign objGet_absent)
qed

text \<open>
  Apart from an empty list of URLs, a build ends without an exception: it returns
  \<^verbatim>\<open>undefined\<close> exactly when no list is configured or the zoom level is beyond the grid,
  and a URL otherwise.
\<close>

lemma undefined_or_url:
  assumes "urls s \<noteq> Some []" and "params' s < nextAddr h"
  shows "(fst (fixedTileUrlFunction e (h, s) tc pr proj) = Inr None)
           = (urls s = None \<or> int (length (getResolutions (activeGrid e s proj))) \<le> fst tc)"
    and "\<not> (urls s = None \<or> int (length (getResolutions (activeGrid e s proj))) \<le> fst tc)
         \<Longrightarrow> \<exists>u. fst (fixedTileUrlFunction e (h, s) tc pr proj) = Inr (Some u)"
proof -
  have ne: "params' s \<noteq> nextAddr h" using assms(2) by simp
  show "(fst (fixedTileUrlFunction e (h, s) tc pr proj) = Inr None)
           = (urls s = None \<or> int (length (getResolutions (activeGrid e s proj))) \<le> fst tc)"
  proof (cases "int (length (getResolutions (activeGrid e s proj))) \<le> fst tc")
    case True
    then show ?thesis by (simp add: fixedTileUrlFunction_zoom)
  next
    case False
    show ?thesis
    proof (cases "urls s")
      case None
      with False show ?thesis by (simp add: fixedTileUrlFunction_null)
    next
      case (Some us)
      with assms(1) have "us \<noteq> []" by simp
      with False Some ne show ?thesis
        by (simp add: fixedTileUrlFunction_eq[where us = us] selectUrl_nonempty)
    qed
  qed
  show "\<exists>u. fst (fixedTileUrlFunction e (h, s) tc pr proj) = Inr (Some u)"
    if "\<not> (urls s = None \<or> int (length (getResolutions (activeGrid e s proj))) \<le> fst tc)"
  proof -
    from that obtain us where us: "urls s = Some us" by auto
    with assms(1) have "us \<noteq> []" by simp
    with that us ne show ?thesis
      by (simp add: fixedTileUrlFunction_eq[where us = us] selectUrl_nonempty)
  qed
qed

section \<open>The claims\<close>

text \<open>
  C1. The claim: the five keys \<^verbatim>\<open>SIZE\<close>, \<^verbatim>\<open>BBOX\<close>, \<^verbatim>\<open>BBOXSR\<close>, \<^verbatim>\<open>IMAGESR\<close> and \<^verbatim>\<open>DPI\<close> of
  a built URL are always overwritten by the builder and never honoured from user input.
  That fails for \<^verbatim>\<open>DPI\<close>, which the builder computes from the user's value. As amended:
  two builds that differ only in the stored user parameters return URLs with the same
  root whose working copies hold the same \<^verbatim>\<open>SIZE\<close>, \<^verbatim>\<open>BBOX\<close>, \<^verbatim>\<open>BBOXSR\<close> and
  \<^verbatim>\<open>IMAGESR\<close>, whatever the user set for them; \<^verbatim>\<open>DPI\<close> is rewritten on every build as
  well, from the user's \<^verbatim>\<open>DPI\<close> times the pixel ratio when that value is truthy and from
  90 times the pixel ratio otherwise, rounded. The product is the one of the language,
  \<open>numberTimes e\<close>, whatever it is.
\<close>

theorem reserved_keys_overwritten:
  assumes "\<not> int (length (getResolutions (activeGrid e s proj))) \<le> fst tc"
    and "urls s = Some us" and "us \<noteq> []"
    and "params' s < nextAddr h1" and "params' s < nextAddr h2"
    and "fixedTileUrlFunction e (h1, s) tc pr proj = (r1, (h1', s1'))"
    and "fixedTileUrlFunction e (h2, s) tc pr proj = (r2, (h2', s2'))"
  shows "(\<exists>root. r1 = Inr (Some (appendParams e root (objs h1' (nextAddr h1))))
              \<and> r2 = Inr (Some (appendParams e root (objs h2' (nextAddr h2)))))
       \<and> objGet (objs h1' (nextAddr h1)) ''SIZE'' = objGet (objs h2' (nextAddr h2)) ''SIZE''
       \<and> objGet (objs h1' (nextAddr h1)) ''BBOX'' = objGet (objs h2' (nextAddr h2)) ''BBOX''
       \<and> objGet (objs h1' (nextAddr h1)) ''BBOXSR'' = objGet (objs h2' (nextAddr h2)) ''BBOXSR''
       \<and> objGet (objs h1' (nextAddr h1)) ''IMAGESR'' = objGet (objs h2' (nextAddr h2)) ''IMAGESR''
       \<and> objGet (objs h1' (nextAddr h1)) ''DPI''
           = JNum (mathRound (if truthy (objGet (objs h1 (params' s)) ''DPI'')
                              then numberTimes e (toNumber e (objGet (objs h1 (params' s)) ''DPI'')) pr
                              else numberTimes e (Fin 90) pr))
       \<and> objGet (objs h2' (nextAddr h2)) ''DPI''
           = JNum (mathRound (if truthy (objGet (objs h2 (params' s)) ''DPI'')
                              then numberTimes e (toNumber e (objGet (objs h2 (params' s)) ''DPI'')) pr
                              else numberTimes e (Fin 90) pr))"
proof -
  note b1 = built_result[OF assms(1-3) assms(4) assms(6)]
  note b2 = built_result[OF assms(1-3) assms(5) assms(7)]
  from b1(1) b2(1)
  have "\<exists>root. r1 = Inr (Some (appendParams e root (objs h1' (nextAddr h1))))
              \<and> r2 = Inr (Some (appendParams e root (objs h2' (nextAddr h2))))"
    by blast
  then show ?thesis
    by (simp add: b1(2) b2(2) objGet_requestParams objGet_defaults_merge_DPI)
qed

theorem reserved_keys_overwritten_witness:
  "objGet (objs (fst (snd (fixedTileUrlFunction sampleEnv
       (sampleHeap [(''SIZE'', JStr ''1,1''), (''BBOX'', JStr ''x''), (''BBOXSR'', JNum (Fin 4326)),
                    (''IMAGESR'', JNum (Fin 4326))], sampleSource (Some [sampleUrl]))
       (0, 0, 0) (Fin 1) sampleProjection))) 1) ''SIZE''
     = objGet (objs (fst (snd (fixedTileUrlFunction sampleEnv
       (sampleHeap [], sampleSource (Some [sampleUrl]))
       (0, 0, 0) (Fin 1) sampleProjection))) 1) ''SIZE''
   \<and> objGet (objs (fst (snd (fixedTileUrlFunction sampleEnv
       (sampleHeap [(''SIZE'', JStr ''1,1''), (''BBOX'', JStr ''x''), (''BBOXSR'', JNum (Fin 4326)),
                    (''IMAGESR'', JNum (Fin 4326))], sampleSource (Some [sampleUrl]))
       (0, 0, 0) (Fin 1) sampleProjection))) 1) ''BBOX''
     = objGet (objs (fst (snd (fixedTileUrlFunction sampleEnv
       (sampleHeap [], sampleSource (Some [sampleUrl]))
       (0, 0, 0) (Fin 1) sampleProjection))) 1) ''BBOX''
   \<and> objGet (objs (fst (snd (fixedTileUrlFunction sampleEnv
       (sampleHeap [(''SIZE'', JStr ''1,1''), (''BBOX'', JStr ''x''), (''BBOXSR'', JNum (Fin 4326)),
                    (''IMAGESR'', JNum (Fin 4326))], sampleSource (Some [sampleUrl]))
       (0, 0, 0) (Fin 1) sampleProjection))) 1) ''DPI'' = JNum (Fin 90)"
proof -
  have st: "urls (sampleSource (Some [sampleUrl])) = Some [sampleUrl]" "[sampleUrl] \<noteq> []"
    by (simp_all add: sample_state)
  have al: "params' (sampleSource (Some [sampleUrl])) < nextAddr (sampleHeap ps)" for ps
    by (simp add: sample_state)
  obtain r1 h1 s1 where run1: "fixedTileUrlFunction sampleEnv
       (sampleHeap [(''SIZE'', JStr ''1,1''), (''BBOX'', JStr ''x''), (''BBOXSR'', JNum (Fin 4326)),
                    (''IMAGESR'', JNum (Fin 4326))], sampleSource (Some [sampleUrl]))
       (0, 0, 0) (Fin 1) sampleProjection = (r1, (h1, s1))"
    by (metis prod.collapse)
  obtain r2 h2 s2 where run2: "fixedTileUrlFunction sampleEnv
       (sampleHeap [], sampleSource (Some [sampleUrl]))
       (0, 0, 0) (Fin 1) sampleProjection = (r2, (h2, s2))"
    by (metis prod.collapse)
  have d: "objGet [(''SIZE'', JStr ''1,1''), (''BBOX'', JStr ''x''), (''BBOXSR'', JNum (Fin 4326)),
                    (''IMAGESR'', JNum (Fin 4326))] ''DPI'' = JUndefined"
    by (simp add: objGet_def)
  from reserved_keys_overwritten[OF sample_in_range st al al run1 run2]
  show ?thesis
    by (simp add: run1 run2 sample_state sample_env d sample_floors)
qed

theorem reserved_DPI_from_user_counterexample:
  "objGet (objs (fst (snd (fixedTileUrlFunction sampleEnv
       (sampleHeap [(''DPI'', JNum (Fin 96))], sampleSource (Some [sampleUrl]))
       (0, 0, 0) (Fin 1) sampleProjection))) 1) ''DPI'' = JNum (Fin 96)
   \<and> objGet (objs (fst (snd (fixedTileUrlFunction sampleEnv
       (sampleHeap [(''DPI'', JNum (Fin 72))], sampleSource (Some [sampleUrl]))
       (0, 0, 0) (Fin 1) sampleProjection))) 1) ''DPI'' = JNum (Fin 72)
   \<and> fst (fixedTileUrlFunction sampleEnv
       (sampleHeap [(''DPI'', JNum (Fin 72))], sampleSource (Some [sampleUrl]))
       (0, 0, 0) (Fin 1) sampleProjection)
     = Inr (Some ''https://host/arcgis/rest/services/X/MapServer/export?F=image&FORMAT=PNG32&TRANSPARENT=true&DPI=72&SIZE=256%2C256&BBOX=0%2C0%2C100%2C100&BBOXSR=3857&IMAGESR=3857'')"
  by code_simp

text \<open>
  C2. The claim: a build returns \<^verbatim>\<open>undefined\<close> exactly when no non-empty list of URLs is
  configured or the zoom level is beyond the grid, returns a URL otherwise, and never
  throws, an empty list of URLs included. On an empty list (the array \<^verbatim>\<open>[]\<close> passes the
  test \<^verbatim>\<open>!urls\<close>) with the zoom level in range the code throws: no element is selected
  and \<^verbatim>\<open>url.replace\<close> is called on \<^verbatim>\<open>undefined\<close>.
\<close>

theorem empty_url_list_throws:
  assumes "\<not> int (length (getResolutions (activeGrid e s proj))) \<le> fst tc"
    and "urls s = Some []"
  shows "fst (fixedTileUrlFunction e (h, s) tc pr proj) = Inl TypeError"
  using assms
  by (simp add: fixedTileUrlFunction_def Let_def getRequestUrl_eq[where us = "[]"] selectUrl_empty)

theorem empty_url_list_throws_witness:
  "fst (fixedTileUrlFunction sampleEnv (sampleHeap [], sampleSource (Some []))
        (0, 0, 0) (Fin 1) sampleProjection) = Inl TypeError"
  using empty_url_list_throws[OF sample_in_range, of "Some []" "sampleHeap []" "Fin 1"]
  by (simp add: sample_state)




text \<open>
  C4. The claim: \<^verbatim>\<open>DPI\<close> is the rounded product of the existing \<^verbatim>\<open>DPI\<close> and the pixel
  ratio when the merged parameters have a \<^verbatim>\<open>DPI\<close> entry, and of 90 and the pixel ratio
  when they have none. The code tests the value, not the presence: an entry that is
  falsy (0, the empty string) counts as absent. As amended: with \<open>d\<close> the \<^verbatim>\<open>DPI\<close> of the
  merged parameters, the URL carries the rounded product of \<open>d\<close> (as a number) and the
  pixel ratio when \<open>d\<close> is truthy, and of 90 and the pixel ratio otherwise; no \<^verbatim>\<open>DPI\<close>
  and pixel ratio 2 give 180, \<^verbatim>\<open>DPI\<close> 96 and pixel ratio 2 give 192. The product is the
  one of the language, \<open>numberTimes e\<close>, whatever it is: where it rounds 90 times 1.45 to
  130.5, the URL carries 131.
\<close>

theorem dpi_scaled_when_truthy:
  assumes "\<not> int (length (getResolutions (activeGrid e s proj))) \<le> fst tc"
    and "urls s = Some us" and "us \<noteq> []" and "params' s < nextAddr h"
    and "d = objGet (assign defaultParams (objs h (params' s))) ''DPI''"
    and "fixedTileUrlFunction e (h, s) tc pr proj = (r, (h', s'))"
  shows "(\<exists>root. r = Inr (Some (appendParams e root (objs h' (nextAddr h)))))
       \<and> objGet (objs h' (nextAddr h)) ''DPI''
           = JNum (mathRound (if truthy d then numberTimes e (toNumber e d) pr
                              else numberTimes e (Fin 90) pr))"
proof -
  note b = built_result[OF assms(1-4) assms(6)]
  from b(1) have "\<exists>root. r = Inr (Some (appendParams e root (objs h' (nextAddr h))))"
    by blast
  then show ?thesis
    by (simp add: b(2) objGet_requestParams assms(5))
qed

theorem dpi_scaled_when_truthy_witness:
  "objGet (objs (fst (snd (fixedTileUrlFunction sampleEnv (sampleHeap [], sampleSource (Some [sampleUrl]))
       (0, 0, 0) (Fin 2) sampleProjection))) 1) ''DPI'' = JNum (Fin 180)
   \<and> objGet (objs (fst (snd (fixedTileUrlFunction sampleEnv
       (sampleHeap [(''DPI'', JNum (Fin 96))], sampleSource (Some [sampleUrl]))
       (0, 0, 0) (Fin 2) sampleProjection))) 1) ''DPI'' = JNum (Fin 192)
   \<and> objGet (objs (fst (snd (fixedTileUrlFunction sampleEnvRounded
       (sampleHeap [], sampleSource (Some [sampleUrl]))
       (0, 0, 0) sampleRatio sampleProjection))) 1) ''DPI'' = JNum (Fin 131)"
proof -
  have st: "urls (sampleSource (Some [sampleUrl])) = Some [sampleUrl]" "[sampleUrl] \<noteq> []"
    "params' (sampleSource (Some [sampleUrl])) < nextAddr (sampleHeap ps)" for ps
    by (simp_all add: sample_state)
  obtain r1 h1 s1 where run1: "fixedTileUrlFunction sampleEnv (sampleHeap [], sampleSource (Some [sampleUrl]))
       (0, 0, 0) (Fin 2) sampleProjection = (r1, (h1, s1))"
    by (metis prod.collapse)
  obtain r2 h2 s2 where run2: "fixedTileUrlFunction sampleEnv
       (sampleHeap [(''DPI'', JNum (Fin 96))], sampleSource (Some [sampleUrl]))
       (0, 0, 0) (Fin 2) sampleProjection = (r2, (h2, s2))"
    by (metis prod.collapse)
  have d1: "objGet [] ''DPI'' = JUndefined"
    and d2: "objGet [(''DPI'', JNum (Fin 96))] ''DPI'' = JNum (Fin 96)"
    by (simp_all add: objGet_def)
  obtain r3 h3 s3 where run3: "fixedTileUrlFunction sampleEnvRounded
       (sampleHeap [], sampleSource (Some [sampleUrl]))
       (0, 0, 0) sampleRatio sampleProjection = (r3, (h3, s3))"
    by (metis prod.collapse)
  have rng3: "\<not> int (length (getResolutions
      (activeGrid sampleEnvRounded (sampleSource (Some [sampleUrl])) sampleProjection)))
      \<le> fst (0::int, 0::int, 0::int)"
    by (simp add: activeGrid_def sampleSource_def sampleEnvRounded_def sampleEnv_def sampleGrid_def)
  have rounded: "mathRound (numberTimes sampleEnvRounded (Fin 90) sampleRatio) = Fin 131"
    by (simp add: sampleEnvRounded_def sampleTimesRounded_def)
  from dpi_scaled_when_truthy[OF sample_in_range st refl run1]
       dpi_scaled_when_truthy[OF sample_in_range st refl run2]
       dpi_scaled_when_truthy[OF rng3 st refl run3]
  show ?thesis
    by (simp add: run1 run2 run3 sample_state sample_env objGet_defaults_merge_DPI d1 d2
        sample_floors rounded)
qed

theorem dpi_zero_counterexample:
  "''DPI'' \<in> set (objKeys (assign defaultParams [(''DPI'', JNum (Fin 0))]))
   \<and> objGet (assign defaultParams [(''DPI'', JNum (Fin 0))]) ''DPI'' = JNum (Fin 0)
   \<and> mathRound (numberTimes sampleEnv (Fin 0) (Fin 2)) = Fin 0
   \<and> objGet (objs (fst (snd (fixedTileUrlFunction sampleEnv
       (sampleHeap [(''DPI'', JNum (Fin 0))], sampleSource (Some [sampleUrl]))
       (0, 0, 0) (Fin 2) sampleProjection))) 1) ''DPI'' = JNum (Fin 180)
   \<and> fst (fixedTileUrlFunction sampleEnv
       (sampleHeap [(''DPI'', JNum (Fin 0))], sampleSource (Some [sampleUrl]))
       (0, 0, 0) (Fin 2) sampleProjection)
     = Inr (Some ''https://host/arcgis/rest/services/X/MapServer/export?F=image&FORMAT=PNG32&TRANSPARENT=true&DPI=180&SIZE=512%2C512&BBOX=0%2C0%2C100%2C100&BBOXSR=3857&IMAGESR=3857'')"
  by code_simp

text \<open>
  C5. For every build with tile size \<open>[w, h]\<close> (both dimensions scaled by the pixel ratio
  when it is not 1) and tile extent \<open>[minX, minY, maxX, maxY]\<close>, the built URL carries
  \<^verbatim>\<open>SIZE\<close> as the two pixel dimensions joined by a comma, \<^verbatim>\<open>BBOX\<close> as the four numbers
  of the extent joined by commas in order, and \<^verbatim>\<open>BBOXSR\<close> and \<^verbatim>\<open>IMAGESR\<close> both as
  the part of the projection's code after its last colon. The URL is \<^verbatim>\<open>appendParams\<close> of a
  root and the working copy of the parameters, the object at the address \<open>nextAddr h\<close>.
\<close>

theorem size_bbox_srid_carried:
  assumes "\<not> int (length (getResolutions (activeGrid e s proj))) \<le> fst tc"
    and "urls s = Some us" and "us \<noteq> []" and "params' s < nextAddr h"
    and "fst (toSize (getTileSize (activeGrid e s proj) (fst tc)) (tmpSize s)) = (w, ht)"
    and "(pw, ph) = (if pr \<noteq> Fin 1 then scaleSize e (w, ht) pr else (w, ht))"
    and "getTileCoordExtent (activeGrid e s proj) tc = (minX, minY, maxX, maxY)"
    and "getCode proj = p @ CHR '':'' # sr" and "CHR '':'' \<notin> set sr"
    and "fixedTileUrlFunction e (h, s) tc pr proj = (r, (h', s'))"
  shows "(\<exists>root. r = Inr (Some (appendParams e root (objs h' (nextAddr h)))))
       \<and> objGet (objs h' (nextAddr h)) ''SIZE''
           = JStr (numToString e pw @ '','' @ numToString e ph)
       \<and> objGet (objs h' (nextAddr h)) ''BBOX''
           = JStr (numToString e minX @ '','' @ numToString e minY @ '',''
                   @ numToString e maxX @ '','' @ numToString e maxY)
       \<and> objGet (objs h' (nextAddr h)) ''BBOXSR'' = JStr sr
       \<and> objGet (objs h' (nextAddr h)) ''IMAGESR'' = JStr sr"
proof -
  note b = built_result[OF assms(1-4) assms(10)]
  have sz: "scaledSize e (activeGrid e s proj) s (fst tc) pr = (pw, ph)"
    using assms(5,6) by (simp add: scaledSize_def)
  have srid: "pop (split CHR '':'' (getCode proj)) = JStr sr"
    using assms(8,9) by (simp add: pop_split)
  have bbox: "arrayJoin e '','' (extentArray (minX, minY, maxX, maxY))
      = numToString e minX @ '','' @ numToString e minY @ '',''
        @ numToString e maxX @ '','' @ numToString e maxY"
    by (simp add: arrayJoin_def extentArray_def)
  from b(1) have "\<exists>root. r = Inr (Some (appendParams e root (objs h' (nextAddr h))))"
    by blast
  then show ?thesis
    by (simp add: b(2) objGet_requestParams sz srid bbox assms(7))
qed

theorem size_bbox_srid_carried_witness:
  "objGet (objs (fst (snd (fixedTileUrlFunction sampleEnv (sampleHeap [], sampleSource (Some [sampleUrl]))
       (0, 0, 0) (Fin 2) sampleProjection))) 1) ''SIZE'' = JStr ''512,512''
   \<and> objGet (objs (fst (snd (fixedTileUrlFunction sampleEnv (sampleHeap [], sampleSource (Some [sampleUrl]))
       (0, 0, 0) (Fin 2) sampleProjection))) 1) ''BBOX'' = JStr ''0,0,100,100''
   \<and> objGet (objs (fst (snd (fixedTileUrlFunction sampleEnv (sampleHeap [], sampleSource (Some [sampleUrl]))
       (0, 0, 0) (Fin 2) sampleProjection))) 1) ''BBOXSR'' = JStr ''3857''
   \<and> objGet (objs (fst (snd (fixedTileUrlFunction sampleEnv (sampleHeap [], sampleSource (Some [sampleUrl]))
       (0, 0, 0) (Fin 2) sampleProjection))) 1) ''IMAGESR'' = JStr ''3857''"
proof -
  have size: "fst (toSize (getTileSize (activeGrid sampleEnv (sampleSource (Some [sampleUrl])) sampleProjection)
      (fst (0::int, 0::int, 0::int))) (tmpSize (sampleSource (Some [sampleUrl])))) = (Fin 256, Fin 256)"
    by (simp add: sample_state sampleGrid_def)
  have scaled: "(Fin 512, Fin 512)
      = (if Fin 2 \<noteq> Fin 1 then scaleSize sampleEnv (Fin 256, Fin 256) (Fin 2) else (Fin 256, Fin 256))"
    by (simp add: sample_env sampleScaleSize_def)
  have ext: "getTileCoordExtent (activeGrid sampleEnv (sampleSource (Some [sampleUrl])) sampleProjection) (0, 0, 0)
      = (Fin 0, Fin 0, Fin 100, Fin 100)"
    by (simp add: sample_state sampleGrid_def)
  have code: "getCode sampleProjection = ''EPSG'' @ CHR '':'' # ''3857''"
    by (simp add: sampleProjection_def)
  have sr: "CHR '':'' \<notin> set ''3857''" by simp
  have st: "urls (sampleSource (Some [sampleUrl])) = Some [sampleUrl]" "[sampleUrl] \<noteq> []"
    "params' (sampleSource (Some [sampleUrl])) < nextAddr (sampleHeap [])"
    by (simp_all add: sample_state)
  obtain r h' s' where run: "fixedTileUrlFunction sampleEnv (sampleHeap [], sampleSource (Some [sampleUrl]))
       (0, 0, 0) (Fin 2) sampleProjection = (r, (h', s'))"
    by (metis prod.collapse)
  from size_bbox_srid_carried[OF sample_in_range st size scaled ext code sr run]
  show ?thesis
    by (simp add: run sample_state sample_env sample_numbers)
qed

text \<open>
  C6. For every stored parameter set and every update, \<^verbatim>\<open>updateParams\<close> leaves in the
  stored object the shallow merge of the two (a key of the update reads as in the
  update, any other key as before, and the keys are those of both), and the key it sets
  is the cache key of the merged set: each entry formatted as \<^verbatim>\<open>{key}-{value}\<close> in the
  order of the keys, joined with \<^verbatim>\<open>/\<close>; the empty set gives the empty string.
\<close>

theorem updateParams_merges_and_rekeys:
  assumes "updateParams e u (h, s) = (h', s')"
  shows "params' s' = params' s
       \<and> (\<forall>k. objGet (objs h' (params' s')) k
               = (if k \<in> set (objKeys u) then objGet u k else objGet (objs h (params' s)) k))
       \<and> set (objKeys (objs h' (params' s'))) = set (objKeys (objs h (params' s))) \<union> set (objKeys u)
       \<and> key s' = getKeyForParams' e (h', s')
       \<and> key s' = computeCacheKey e (objs h' (params' s'))
       \<and> computeCacheKey e [] = []"
proof -
  from assms have h': "h' = h\<lparr>objs := (objs h)(params' s := assign (objs h (params' s)) u)\<rparr>"
    by (simp add: updateParams_def Let_def)
  from assms have s': "s' = setKey s (getKeyForParams' e (h', s))"
    unfolding h' by (simp add: updateParams_def Let_def)
  have p: "params' s' = params' s" using s' by (simp add: setKey_def)
  have o: "objs h' (params' s') = assign (objs h (params' s)) u"
    using h' p by simp
  have k: "key s' = getKeyForParams' e (h', s')"
    using s' p by (simp add: setKey_def getKeyForParams_spec)
  have m: "\<forall>k. objGet (objs h' (params' s')) k
               = (if k \<in> set (objKeys u) then objGet u k else objGet (objs h (params' s)) k)"
    by (simp add: o objGet_assign)
  have ks: "set (objKeys (objs h' (params' s')))
      = set (objKeys (objs h (params' s))) \<union> set (objKeys u)"
    by (simp add: o keys_assign)
  have k2: "key s' = computeCacheKey e (objs h' (params' s'))"
    using k by (simp add: getKeyForParams_spec)
  have emp: "computeCacheKey e [] = []"
    by (simp add: computeCacheKey_def objEntries_def objKeys_def)
  from p m ks k k2 emp show ?thesis by blast
qed

theorem updateParams_merges_and_rekeys_witness:
  "key (snd (updateParams sampleEnv [(''LAYERS'', JStr ''show:1''), (''FORMAT'', JStr ''JPG'')]
        (sampleHeap [(''FORMAT'', JStr ''PNG''), (''TIME'', JNum (Fin 100))], sampleSource None)))
     = ''FORMAT-JPG/TIME-100/LAYERS-show:1''
   \<and> key (snd (updateParams sampleEnv [] (sampleHeap [], sampleSource None))) = []"
proof -
  obtain h1 s1 where run1: "updateParams sampleEnv [(''LAYERS'', JStr ''show:1''), (''FORMAT'', JStr ''JPG'')]
        (sampleHeap [(''FORMAT'', JStr ''PNG''), (''TIME'', JNum (Fin 100))], sampleSource None) = (h1, s1)"
    by (metis prod.collapse)
  obtain h2 s2 where run2: "updateParams sampleEnv [] (sampleHeap [], sampleSource None) = (h2, s2)"
    by (metis prod.collapse)
  have "objs (fst (updateParams sampleEnv [(''LAYERS'', JStr ''show:1''), (''FORMAT'', JStr ''JPG'')]
        (sampleHeap [(''FORMAT'', JStr ''PNG''), (''TIME'', JNum (Fin 100))], sampleSource None)))
      (params' (snd (updateParams sampleEnv [(''LAYERS'', JStr ''show:1''), (''FORMAT'', JStr ''JPG'')]
        (sampleHeap [(''FORMAT'', JStr ''PNG''), (''TIME'', JNum (Fin 100))], sampleSource None))))
      = [(''FORMAT'', JStr ''JPG''), (''TIME'', JNum (Fin 100)), (''LAYERS'', JStr ''show:1'')]"
    by code_simp
  then have o1: "objs h1 (params' s1)
      = [(''FORMAT'', JStr ''JPG''), (''TIME'', JNum (Fin 100)), (''LAYERS'', JStr ''show:1'')]"
    by (simp add: run1)
  have "objs (fst (updateParams sampleEnv [] (sampleHeap [], sampleSource None)))
      (params' (snd (updateParams sampleEnv [] (sampleHeap [], sampleSource None)))) = []"
    by code_simp
  then have o2: "objs h2 (params' s2) = []"
    by (simp add: run2)
  have c: "computeCacheKey sampleEnv [(''FORMAT'', JStr ''JPG''), (''TIME'', JNum (Fin 100)), (''LAYERS'', JStr ''show:1'')]
      = ''FORMAT-JPG/TIME-100/LAYERS-show:1''"
    by code_simp
  from updateParams_merges_and_rekeys[OF run1]
  have "key s1 = computeCacheKey sampleEnv (objs h1 (params' s1))" by blast
  moreover from updateParams_merges_and_rekeys[OF run2]
  have "key s2 = computeCacheKey sampleEnv (objs h2 (params' s2))"
    and "computeCacheKey sampleEnv [] = []" by blast+
  ultimately show ?thesis
    by (simp add: run1 run2 o1 o2 c)
qed

text \<open>
  C7. The rewrite of a base URL: a URL that ends in \<^verbatim>\<open>MapServer\<close>, with or without one
  slash after it, becomes the same URL ending in \<^verbatim>\<open>MapServer/export\<close>; one that ends in
  \<^verbatim>\<open>ImageServer\<close>, with or without the slash, ends in \<^verbatim>\<open>ImageServer/exportImage\<close>; any
  other URL is left as it is. The rewrite is a total function: it raises nothing.
\<close>

theorem base_url_rewritten:
  "modifiedUrl (p @ ''MapServer'') = p @ ''MapServer/export''
   \<and> modifiedUrl (p @ ''MapServer/'') = p @ ''MapServer/export''
   \<and> modifiedUrl (p @ ''ImageServer'') = p @ ''ImageServer/exportImage''
   \<and> modifiedUrl (p @ ''ImageServer/'') = p @ ''ImageServer/exportImage''
   \<and> (\<not> suffix ''MapServer'' url \<and> \<not> suffix ''MapServer/'' url
       \<and> \<not> suffix ''ImageServer'' url \<and> \<not> suffix ''ImageServer/'' url
       \<longrightarrow> modifiedUrl url = url)"
  by (simp add: modifiedUrl_MapServer modifiedUrl_MapServer_slash modifiedUrl_ImageServer
      modifiedUrl_ImageServer_slash modifiedUrl_other)

theorem base_url_rewritten_witness:
  "modifiedUrl ''https://host/arcgis/rest/services/X/MapServer''
     = ''https://host/arcgis/rest/services/X/MapServer/export''
   \<and> modifiedUrl ''https://host/arcgis/rest/services/X/ImageServer/''
     = ''https://host/arcgis/rest/services/X/ImageServer/exportImage''
   \<and> modifiedUrl ''https://host/arcgis/rest/services/X/MapServer/export''
     = ''https://host/arcgis/rest/services/X/MapServer/export''"
  using base_url_rewritten[of "''https://host/arcgis/rest/services/X/''"
          "''https://host/arcgis/rest/services/X/MapServer/export''"]
  by (simp add: suffix_to_prefix)

text \<open>
  C8. With exactly one URL configured every build selects it, whatever the tile
  coordinate; with more, the build selects the URL at the index
  \<open>hash(tileCoord) mod N\<close>, which lies in the list and depends on the coordinate alone.
\<close>

theorem url_selected_by_hash:
  assumes "\<not> int (length (getResolutions (activeGrid e s proj))) \<le> fst tc"
    and "urls s = Some us" and "us \<noteq> []" and "params' s < nextAddr h"
    and "fixedTileUrlFunction e (h, s) tc pr proj = (r, (h', s'))"
  shows "(if length us = 1
          then r = Inr (Some (appendParams e (modifiedUrl (us ! 0)) (objs h' (nextAddr h))))
          else nat (tileCoordHash e tc mod int (length us)) < length us
             \<and> r = Inr (Some (appendParams e
                     (modifiedUrl (us ! nat (tileCoordHash e tc mod int (length us))))
                     (objs h' (nextAddr h)))))"
proof -
  note b = built_result[OF assms]
  have "nat (tileCoordHash e tc mod int (length us)) < length us"
    using assms(3) by (simp add: nat_less_iff)
  with b(1) show ?thesis by simp
qed

theorem url_selected_by_hash_witness:
  "fst (fixedTileUrlFunction sampleEnv (sampleHeap [], sampleSource (Some [''a'', ''b'', ''c'']))
       (0, 5, 0) (Fin 1) sampleProjection)
     = Inr (Some (appendParams sampleEnv ''c''
         (objs (fst (snd (fixedTileUrlFunction sampleEnv
            (sampleHeap [], sampleSource (Some [''a'', ''b'', ''c'']))
            (0, 5, 0) (Fin 1) sampleProjection))) 1)))
   \<and> fst (fixedTileUrlFunction sampleEnv (sampleHeap [], sampleSource (Some [''a'']))
       (0, 5, 0) (Fin 1) sampleProjection)
     = Inr (Some (appendParams sampleEnv ''a''
         (objs (fst (snd (fixedTileUrlFunction sampleEnv
            (sampleHeap [], sampleSource (Some [''a'']))
            (0, 5, 0) (Fin 1) sampleProjection))) 1)))"
proof -
  have rng: "\<not> int (length (getResolutions (activeGrid sampleEnv (sampleSource us) sampleProjection)))
      \<le> fst (0::int, 5::int, 0::int)" for us
    by (simp add: sample_state sampleGrid_def)
  have al: "params' (sampleSource us) < nextAddr (sampleHeap [])" for us
    by (simp add: sample_state)
  obtain r1 h1 s1 where run1: "fixedTileUrlFunction sampleEnv
       (sampleHeap [], sampleSource (Some [''a'', ''b'', ''c'']))
       (0, 5, 0) (Fin 1) sampleProjection = (r1, (h1, s1))"
    by (metis prod.collapse)
  obtain r2 h2 s2 where run2: "fixedTileUrlFunction sampleEnv
       (sampleHeap [], sampleSource (Some [''a'']))
       (0, 5, 0) (Fin 1) sampleProjection = (r2, (h2, s2))"
    by (metis prod.collapse)
  have m: "modifiedUrl ''a'' = ''a''" "modifiedUrl ''c'' = ''c''"
    by (simp_all add: modifiedUrl_other suffix_to_prefix)
  have hash: "tileCoordHash sampleEnv (0, 5, 0) = 5"
    by (simp add: sample_env sampleHash_def)
  from url_selected_by_hash[OF rng _ _ al run1] url_selected_by_hash[OF rng _ _ al run2]
  show ?thesis
    by (simp add: run1 run2 sample_state m hash)
qed

text \<open>
  C9. Builds never change the stored user parameters or the key: after any number of
  calls of \<^verbatim>\<open>fixedTileUrlFunction\<close> every object that existed before is what it was (the
  reserved keys go to a new object per call), the key is what it was, and the cache key
  computed from the stored parameters is what it was. After an update with
  \<^verbatim>\<open>{BBOX: 'x'}\<close> and two builds the key is still \<^verbatim>\<open>BBOX-x\<close>.
\<close>

theorem builds_keep_params_and_key:
  assumes "params' s < nextAddr h" and "builds e cs (h, s) = (h', s')"
  shows "params' s' = params' s
       \<and> (\<forall>a. a < nextAddr h \<longrightarrow> objs h' a = objs h a)
       \<and> objs h' (params' s') = objs h (params' s)
       \<and> key s' = key s
       \<and> getKeyForParams' e (h', s') = getKeyForParams' e (h, s)"
proof -
  note f = builds_frame[OF assms(2)]
  from f assms(1) have o: "objs h' (params' s') = objs h (params' s)" by simp
  then have "getKeyForParams' e (h', s') = getKeyForParams' e (h, s)"
    by (simp add: getKeyForParams_spec)
  with f o show ?thesis by simp
qed

theorem builds_keep_params_and_key_witness:
  "key (snd (builds sampleEnv [((0, 0, 0), Fin 1, sampleProjection), ((1, 1, 0), Fin 2, sampleProjection)]
        (updateParams sampleEnv [(''BBOX'', JStr ''x'')]
           (sampleHeap [], sampleSource (Some [sampleUrl]))))) = ''BBOX-x''
   \<and> getKeyForParams' sampleEnv
        (builds sampleEnv [((0, 0, 0), Fin 1, sampleProjection), ((1, 1, 0), Fin 2, sampleProjection)]
        (updateParams sampleEnv [(''BBOX'', JStr ''x'')]
           (sampleHeap [], sampleSource (Some [sampleUrl])))) = ''BBOX-x''"
proof -
  obtain h0 s0 where u: "updateParams sampleEnv [(''BBOX'', JStr ''x'')]
           (sampleHeap [], sampleSource (Some [sampleUrl])) = (h0, s0)"
    by (metis prod.collapse)
  obtain h' s' where b: "builds sampleEnv
        [((0, 0, 0), Fin 1, sampleProjection), ((1, 1, 0), Fin 2, sampleProjection)] (h0, s0) = (h', s')"
    by (metis prod.collapse)
  have al: "params' s0 < nextAddr h0"
    using updateParams_frame[OF u] by (simp add: sample_state)
  have "key (snd (updateParams sampleEnv [(''BBOX'', JStr ''x'')]
           (sampleHeap [], sampleSource (Some [sampleUrl])))) = ''BBOX-x''"
    by code_simp
  then have k0: "key s0 = ''BBOX-x''" by (simp add: u)
  have "getKeyForParams' sampleEnv (updateParams sampleEnv [(''BBOX'', JStr ''x'')]
           (sampleHeap [], sampleSource (Some [sampleUrl]))) = ''BBOX-x''"
    by code_simp
  then have g0: "getKeyForParams' sampleEnv (h0, s0) = ''BBOX-x''" by (simp add: u)
  from builds_keep_params_and_key[OF al b] show ?thesis
    unfolding u b snd_conv by (simp add: k0 g0)
qed

text \<open>
  C10. \<^verbatim>\<open>fixedTileUrlFunction\<close> gives the same result for the same arguments and the same
  stored parameters, whatever calls (builds and updates) ran on the source in between,
  and whatever the scratch extent and the scratch size hold.
\<close>

theorem build_result_deterministic:
  assumes "params' s < nextAddr h" and "run e cs (h, s) = (h', s')"
    and "objs h' (params' s') = objs h (params' s)"
  shows "fst (fixedTileUrlFunction e (h', s') tc pr proj)
           = fst (fixedTileUrlFunction e (h, s) tc pr proj)
       \<and> fst (fixedTileUrlFunction e (h, s\<lparr>tmpExtent' := x, tmpSize := y\<rparr>) tc pr proj)
           = fst (fixedTileUrlFunction e (h, s) tc pr proj)"
proof -
  note f = run_frame[OF assms(2)]
  have "params' s' \<noteq> nextAddr h'" "params' s \<noteq> nextAddr h"
    using f assms(1) by simp_all
  with f assms(3)
  have "fst (fixedTileUrlFunction e (h', s') tc pr proj)
           = fst (fixedTileUrlFunction e (h, s) tc pr proj)"
    by (intro fixedTileUrlFunction_agree) simp_all
  moreover have "fst (fixedTileUrlFunction e (h, s\<lparr>tmpExtent' := x, tmpSize := y\<rparr>) tc pr proj)
           = fst (fixedTileUrlFunction e (h, s) tc pr proj)"
    using assms(1) by (intro fixedTileUrlFunction_agree) simp_all
  ultimately show ?thesis by simp
qed

theorem build_result_deterministic_witness:
  "fst (fixedTileUrlFunction sampleEnv
          (run sampleEnv [Build (1, 1, 0) (Fin 2) sampleProjection, Update [(''FORMAT'', JStr ''JPG'')],
                          Build (0, 0, 0) (Fin 1) sampleProjection, Update [(''FORMAT'', JStr ''PNG32'')]]
             (sampleHeap [(''FORMAT'', JStr ''PNG32'')], sampleSource (Some [sampleUrl])))
          (0, 0, 0) (Fin 1) sampleProjection)
     = fst (fixedTileUrlFunction sampleEnv
          (sampleHeap [(''FORMAT'', JStr ''PNG32'')], sampleSource (Some [sampleUrl]))
          (0, 0, 0) (Fin 1) sampleProjection)
   \<and> tmpExtent' (snd (run sampleEnv [Build (1, 1, 0) (Fin 2) sampleProjection, Update [(''FORMAT'', JStr ''JPG'')],
                          Build (0, 0, 0) (Fin 1) sampleProjection, Update [(''FORMAT'', JStr ''PNG32'')]]
             (sampleHeap [(''FORMAT'', JStr ''PNG32'')], sampleSource (Some [sampleUrl]))))
     = (Fin 0, Fin 0, Fin 100, Fin 100)"
proof -
  obtain h' s' where r: "run sampleEnv [Build (1, 1, 0) (Fin 2) sampleProjection, Update [(''FORMAT'', JStr ''JPG'')],
                          Build (0, 0, 0) (Fin 1) sampleProjection, Update [(''FORMAT'', JStr ''PNG32'')]]
             (sampleHeap [(''FORMAT'', JStr ''PNG32'')], sampleSource (Some [sampleUrl])) = (h', s')"
    by (metis prod.collapse)
  have al: "params' (sampleSource (Some [sampleUrl])) < nextAddr (sampleHeap [(''FORMAT'', JStr ''PNG32'')])"
    by (simp add: sample_state)
  have "objs (fst (run sampleEnv [Build (1, 1, 0) (Fin 2) sampleProjection, Update [(''FORMAT'', JStr ''JPG'')],
                          Build (0, 0, 0) (Fin 1) sampleProjection, Update [(''FORMAT'', JStr ''PNG32'')]]
             (sampleHeap [(''FORMAT'', JStr ''PNG32'')], sampleSource (Some [sampleUrl]))))
          (params' (snd (run sampleEnv [Build (1, 1, 0) (Fin 2) sampleProjection, Update [(''FORMAT'', JStr ''JPG'')],
                          Build (0, 0, 0) (Fin 1) sampleProjection, Update [(''FORMAT'', JStr ''PNG32'')]]
             (sampleHeap [(''FORMAT'', JStr ''PNG32'')], sampleSource (Some [sampleUrl])))))
        = [(''FORMAT'', JStr ''PNG32'')]"
    by code_simp
  then have same: "objs h' (params' s')
      = objs (sampleHeap [(''FORMAT'', JStr ''PNG32'')]) (params' (sampleSource (Some [sampleUrl])))"
    unfolding r fst_conv snd_conv by (simp add: sample_state)
  have "tmpExtent' (snd (run sampleEnv [Build (1, 1, 0) (Fin 2) sampleProjection, Update [(''FORMAT'', JStr ''JPG'')],
                          Build (0, 0, 0) (Fin 1) sampleProjection, Update [(''FORMAT'', JStr ''PNG32'')]]
             (sampleHeap [(''FORMAT'', JStr ''PNG32'')], sampleSource (Some [sampleUrl]))))
     = (Fin 0, Fin 0, Fin 100, Fin 100)"
    by code_simp
  with build_result_deterministic[OF al r same] show ?thesis
    unfolding r snd_conv by simp
qed

end
